theory Spec2Isabelle
  imports Main
begin

section \<open>Python values\<close>

text \<open>
  A Python \<open>str\<close> is a sequence of Unicode code points, so it is modelled as a list of
  natural numbers. The source's literals are mostly Japanese; they are written here as
  code points, with the printable ASCII runs kept readable through \<open>ascii\<close>.
\<close>

type_synonym pystr = "nat list"

definition ascii :: "string \<Rightarrow> pystr" where
  "ascii s = map of_char s"

text \<open>
  \<open>str.isspace\<close> on one code point, and \<open>str.strip()\<close> with no argument, which removes
  the leading and the trailing run of such code points (CPython's whitespace table).
\<close>

definition isspace :: "nat \<Rightarrow> bool" where
  "isspace c \<longleftrightarrow>
     (9 \<le> c \<and> c \<le> 13) \<or> (28 \<le> c \<and> c \<le> 32) \<or> c = 133 \<or> c = 160 \<or> c = 5760 \<or>
     (8192 \<le> c \<and> c \<le> 8202) \<or> c = 8232 \<or> c = 8233 \<or> c = 8239 \<or> c = 8287 \<or> c = 12288"

definition strip :: "pystr \<Rightarrow> pystr" where
  "strip s = rev (dropWhile isspace (rev (dropWhile isspace s)))"

text \<open>
  A raised exception. \<open>is_Exception\<close> tells whether it is an instance of \<open>Exception\<close>
  (what \<open>except Exception\<close> catches); it is False for \<open>KeyboardInterrupt\<close>, \<open>SystemExit\<close>
  and \<open>asyncio.CancelledError\<close>, which derive from \<open>BaseException\<close> only.
  \<open>exn_str\<close> is what \<open>str(e)\<close> and an f-string \<open>{e}\<close> render.
\<close>

datatype exn = Exn (is_Exception: bool) (exn_class: pystr) (exn_str: pystr)

text \<open>
  A value that may or may not be a \<open>str\<close>: \<open>PyObj r\<close> is any other object, with the
  outcome \<open>r\<close> of calling \<open>str()\<close> on it.
\<close>

datatype pyval = PyStr pystr | PyObj "exn + pystr"

section \<open>The collaborators' data (browser\_use)\<close>

record ImageURL =
  url :: pystr
  media_type :: pystr

datatype content_part =
    ContentPartTextParam (part_text: pystr)
  | ContentPartImageParam (image_url: ImageURL)

datatype message =
    SystemMessage pystr
  | UserMessage "content_part list"

text \<open>
  The serialized DOM of a page state: \<open>llm_representation\<close> is None when the object
  has no such attribute, and otherwise the outcome of calling the method.
\<close>

datatype dom = Dom (llm_representation: "(exn + pystr) option")

record BrowserStateSummary =
  dom_state :: "dom option"
  screenshot :: "pystr option"

text \<open>
  The model client's response object: \<open>completion\<close> is None when the attribute is
  missing; \<open>response_str\<close> is the outcome of \<open>str(response)\<close>.
\<close>

record llm_response =
  completion :: "pyval option"
  response_str :: "exn + pystr"

text \<open>
  What the program does, in the order it does it: what it logs, prints and reads, the
  operations of the collaborators it calls, and the objects it constructs with the
  arguments they are given (\<open>Agent\<close> with its task and \<open>flash_mode\<close>, \<open>SituationSummarizer\<close>
  with its \<open>user_query\<close>). The collaborators are stateful, so each of their operations
  takes the state of the world \<open>'w\<close> and returns the new one next to its outcome (\<open>Inl\<close> an
  exception raised, \<open>Inr\<close> a value returned).
\<close>

datatype event =
    LogInfo pystr
  | LogWarning pystr
  | LogError pystr
  | Print pystr
  | Input pystr
  | GetBrowserStateSummary bool
  | Ainvoke "message list"
  | AgentInit pystr bool
  | AgentRun pystr
  | SituationSummarizerInit pystr
  | BrowserKill
  | BrowserStop
  | ClearWindowSize
  | ClearWindowPosition

record 'w BaseChatModel =
  ainvoke :: "message list \<Rightarrow> 'w \<Rightarrow> (exn + llm_response) \<times> 'w"

text \<open>
  The browser handle. \<open>kill\<close> and \<open>stop\<close> are None when \<open>hasattr\<close> finds no such
  attribute.
\<close>

record 'w BrowserSession =
  get_browser_state_summary :: "bool \<Rightarrow> 'w \<Rightarrow> (exn + BrowserStateSummary) \<times> 'w"
  kill :: "('w \<Rightarrow> (exn + unit) \<times> 'w) option"
  stop :: "('w \<Rightarrow> (exn + unit) \<times> 'w) option"
  has_browser_profile :: bool

section \<open>situation\_summarizer.py\<close>

record SituationSummary =
  raw_response :: pystr
  summary :: pystr
  suggested_actions :: pystr

record 'w SituationSummarizer =
  browser_context :: "'w BrowserSession"
  llm :: "'w BaseChatModel"
  user_query :: pystr

subsection \<open>String literals of the summarizer\<close>

text \<open>Line 33: the progress message of step 1/4 (starting the summary).\<close>

definition MSG_STEP1 :: pystr where
  "MSG_STEP1 = [128269] @ ascii '' [1/4] '' @ [30011, 38754, 12398, 29366, 27841, 35201, 32004,
     12434, 38283, 22987, 12375, 12414, 12377] @ ascii ''...''"

text \<open>Line 38: the progress message of step 2/4 (textualizing the UI list).\<close>

definition MSG_STEP2 :: pystr where
  "MSG_STEP2 = [128269] @ ascii '' [2/4] UI'' @ [12522, 12473, 12488, 12398, 12486, 12461, 12473,
     12488, 21270, 12434, 23455, 34892, 20013] @ ascii ''...''"

text \<open>Line 61: the progress message of step 3/4 (building the prompt).\<close>

definition MSG_STEP3 :: pystr where
  "MSG_STEP3 = [128269] @ ascii '' [3/4] LLM'' @ [12503, 12525, 12531, 12503, 12488, 12434, 27083,
     31689, 20013] @ ascii ''...''"

text \<open>Line 92: the progress message of step 4/4 (sending the request).\<close>

definition MSG_STEP4 :: pystr where
  "MSG_STEP4 = [128269] @ ascii '' [4/4] LLM'' @ [12408, 12522, 12463, 12456, 12473, 12488, 12434,
     36865, 20449, 20013] @ ascii ''...''"

text \<open>Line 102: the message that the summary is complete.\<close>

definition MSG_DONE :: pystr where
  "MSG_DONE = [9989] @ ascii '' '' @ [29366, 27841, 35201, 32004, 12364, 23436, 20102, 12375,
     12414, 12375, 12383]"

text \<open>Line 43: the fallback text, "the UI element list could not be retrieved".\<close>

definition UI_FALLBACK :: pystr where
  "UI_FALLBACK = ascii ''UI'' @ [35201, 32032, 12522, 12473, 12488, 12434, 21462, 24471, 12391,
     12365, 12414, 12379, 12435, 12391, 12375, 12383, 12290]"

text \<open>Lines 46 and main.py 81: the default question, "what does the screen look like now?".\<close>

definition DEFAULT_QUERY :: pystr where
  "DEFAULT_QUERY = [20170, 12398, 30011, 38754, 12399, 12393, 12358, 12394, 12387, 12390, 12356,
     12427, 65311]"

text \<open>Line 47: the two literal pieces of the f-string around the user's query.\<close>

definition QUERY_INSTRUCTION_HEAD :: pystr where
  "QUERY_INSTRUCTION_HEAD = [10, 10, 12518, 12540, 12470, 12540, 12363, 12425, 12399, 12300]"

definition QUERY_INSTRUCTION_TAIL :: pystr where
  "QUERY_INSTRUCTION_TAIL = [12301, 12392, 12356, 12358, 38306, 24515, 12539, 30097, 21839, 12364,
     25552, 31034, 12373, 12428, 12390, 12356, 12414, 12377, 12290, 12371, 12428, 12395, 23550,
     12377, 12427, 22238, 31572, 12434, 21547, 12417, 12390, 35201, 32004, 12375, 12390, 12367,
     12384, 12373, 12356, 12290]"

text \<open>Lines 49-59: the two literal pieces of the system prompt around the instruction.\<close>

definition SYSTEM_PROMPT_HEAD :: pystr where
  "SYSTEM_PROMPT_HEAD = [12354, 12394, 12383, 12399, 20778, 12428, 12383] @ ascii ''UI/UX'' @
     [12450, 12490, 12522, 12473, 12488, 12391, 12377, 12290, 10, 29694, 22312, 12518, 12540,
      12470, 12540, 12364, 38283, 12356, 12390, 12356, 12427] @ ascii ''Web'' @
     [12506, 12540, 12472, 12398, 12473, 12463, 12522, 12540, 12531, 12471, 12519, 12483, 12488,
      12392, 12289, 26908, 20986, 12373, 12428, 12383] @ ascii ''UI'' @
     [35201, 32032, 12398, 12522, 12473, 12488, 12364, 25552, 20379, 12373, 12428, 12414, 12377,
      12290, 10, 12371, 12428, 12425, 12434, 31354, 38291, 30340, 12395, 23436, 20840, 12395,
      32080, 12403, 12388, 12369, 12390, 20998, 26512, 12375, 12289, 20197, 19979, 12398] @
     ascii ''2'' @ [28857, 12434, 20986, 21147, 12375, 12390, 12367, 12384, 12373, 12356, 12290]"

definition SYSTEM_PROMPT_TAIL :: pystr where
  "SYSTEM_PROMPT_TAIL = [10, 10] @ ascii ''1. **'' @ [29366, 27841, 35201, 32004] @
     ascii ''**: '' @ [10] @ ascii ''   '' @
     [30011, 38754, 19978, 12395, 26144, 12387, 12390, 12356, 12427, 30011, 38754, 12364, 29694,
      22312, 12393, 12358, 12356, 12358, 29366, 27841, 12395, 12354, 12427, 12363, 65288, 20309,
      12398, 12383, 12417, 12398, 12506, 12540, 12472, 12363, 12289, 12393, 12358, 12356, 12358,
      29366, 24907, 12363, 65289, 12434, 31777, 28500, 12395, 35500, 26126, 12375, 12390, 12367,
      12384, 12373, 12356, 12290, 10] @ ascii ''   '' @ [10] @ ascii ''2. **'' @
     [20027, 12394, 25805, 20316, 20869, 23481] @ ascii ''**: '' @ [10] @ ascii ''   '' @
     [12371, 12398, 12469, 12452, 12488, 19978, 12391, 21487, 33021, 12394, 25805, 20316, 20869,
      23481, 12398, 19978, 20301] @ ascii ''3'' @ [12316] @ ascii ''5'' @
     [20214, 31243, 24230, 12434, 12522, 12473, 12488, 12450, 12483, 12503, 12375, 12390, 12367,
      12384, 12373, 12356, 12290, 10] @ ascii ''   '' @
     [21508, 25805, 20316, 12395, 12399, 12289, 24517, 12378, 23550, 24540, 12377, 12427] @
     ascii ''UI'' @ [35201, 32032, 12398, 30058, 21495, 65288, 20363] @ ascii '': [12]'' @
     [65289, 12434, 20341, 35352, 12375, 12390, 12367, 12384, 12373, 12356, 12290, 10]"

text \<open>Line 69: the literal piece of the text part, before the UI element list.\<close>

definition USER_TEXT_HEAD :: pystr where
  "USER_TEXT_HEAD = [20197, 19979, 12398] @ ascii ''UI'' @
     [35201, 32032, 12522, 12473, 12488, 12392, 28155, 20184, 12398, 12473, 12463, 12522, 12540,
      12531, 12471, 12519, 12483, 12488, 12434, 12418, 12392, 12395, 12289, 30011, 38754, 29366,
      27841, 12434, 35201, 32004, 12375, 12390, 12367, 12384, 12373, 12356, 12290, 10, 10] @
     ascii ''## UI'' @ [35201, 32032, 12522, 12473, 12488, 10]"

text \<open>Lines 78-79: the data URL prefix and the media type of the image part.\<close>

definition DATA_URL_PREFIX :: pystr where
  "DATA_URL_PREFIX = ascii ''data:image/png;base64,''"

definition MEDIA_TYPE_PNG :: pystr where
  "MEDIA_TYPE_PNG = ascii ''image/png''"

text \<open>Line 84: the warning, "the screenshot could not be obtained".\<close>

definition MSG_NO_SCREENSHOT :: pystr where
  "MSG_NO_SCREENSHOT = [9888, 65039] @ ascii '' '' @ [12473, 12463, 12522, 12540, 12531, 12471,
     12519, 12483, 12488, 12364, 21462, 24471, 12391, 12365, 12414, 12379, 12435, 12391, 12375,
     12383, 12290]"

text \<open>Lines 106-107: the placeholder, "for details see raw\_response".\<close>

definition PLACEHOLDER :: pystr where
  "PLACEHOLDER = [35443, 32048, 12399] @ ascii '' raw_response '' @ [12434, 21442, 29031]"

text \<open>Line 111: the literal piece of the error message, before the traceback.\<close>

definition MSG_FATAL :: pystr where
  "MSG_FATAL = [10060] @ ascii '' '' @ [35201, 32004, 20966, 29702, 20013, 12395, 33268, 21629,
     30340, 12394, 12456, 12521, 12540, 12364, 30330, 29983, 12375, 12414, 12375, 12383] @
     ascii '':'' @ [10]"

subsection \<open>SituationSummarizer.summarize\<close>

text \<open>
  Lines 40-43: the UI element list as text. A \<open>dom_state\<close> that is None is falsy; one
  without the method fails \<open>hasattr\<close>; in both cases the fallback text is taken. When
  the method exists it is called, and it may raise.
\<close>

definition ui_elements_text :: "BrowserStateSummary \<Rightarrow> exn + pystr" where
  "ui_elements_text state =
     (case dom_state state of
        None \<Rightarrow> Inr UI_FALLBACK
      | Some d \<Rightarrow>
          (case llm_representation d of
             None \<Rightarrow> Inr UI_FALLBACK
           | Some r \<Rightarrow> r))"

text \<open>Lines 45-47: the instruction added for a query that is neither empty nor the default.\<close>

definition query_instruction :: "pystr \<Rightarrow> pystr" where
  "query_instruction q =
     (if q \<noteq> [] \<and> q \<noteq> DEFAULT_QUERY
      then QUERY_INSTRUCTION_HEAD @ q @ QUERY_INSTRUCTION_TAIL
      else [])"

text \<open>Lines 49-59.\<close>

definition system_prompt :: "pystr \<Rightarrow> pystr" where
  "system_prompt qi = SYSTEM_PROMPT_HEAD @ qi @ SYSTEM_PROMPT_TAIL"

text \<open>
  Lines 64-84: the content list of the user message, with what is logged while it is
  built. \<open>if state.screenshot\<close> tests truthiness: None and the empty string are falsy.
\<close>

definition content_list :: "pystr \<Rightarrow> pystr option \<Rightarrow> content_part list \<times> event list" where
  "content_list ui shot =
     (let parts = [ContentPartTextParam (USER_TEXT_HEAD @ ui)]
      in case shot of
           None \<Rightarrow> (parts, [LogWarning MSG_NO_SCREENSHOT])
         | Some s \<Rightarrow>
             if s \<noteq> []
             then (parts @ [ContentPartImageParam
                     \<lparr>url = DATA_URL_PREFIX @ s, media_type = MEDIA_TYPE_PNG\<rparr>], [])
             else (parts, [LogWarning MSG_NO_SCREENSHOT]))"

text \<open>
  Lines 98-100: the reply text. The default argument \<open>str(response)\<close> of \<open>getattr\<close> is
  evaluated before \<open>getattr\<close> looks for the attribute; a value that is not a \<open>str\<close> is
  converted with \<open>str()\<close>.
\<close>

definition extract_content :: "llm_response \<Rightarrow> exn + pystr" where
  "extract_content response =
     (case response_str response of
        Inl e \<Rightarrow> Inl e
      | Inr d \<Rightarrow>
          (case (case completion response of None \<Rightarrow> PyStr d | Some c \<Rightarrow> c) of
             PyStr s \<Rightarrow> Inr s
           | PyObj r \<Rightarrow> r))"

text \<open>Lines 32-108: the body of the \<open>try\<close>, returning the events, the world and the outcome.\<close>

definition summarize_try ::
  "'w SituationSummarizer \<Rightarrow> 'w \<Rightarrow> event list \<times> 'w \<times> (exn + SituationSummary)" where
  "summarize_try self w =
     (case get_browser_state_summary (browser_context self) True w of
        (Inl e, w1) \<Rightarrow> ([LogInfo MSG_STEP1, GetBrowserStateSummary True], w1, Inl e)
      | (Inr state, w1) \<Rightarrow>
          (case ui_elements_text state of
             Inl e \<Rightarrow>
               ([LogInfo MSG_STEP1, GetBrowserStateSummary True, LogInfo MSG_STEP2], w1, Inl e)
           | Inr ui \<Rightarrow>
               (let (parts, warnings) = content_list ui (screenshot state);
                    messages = [SystemMessage (system_prompt (query_instruction (user_query self))),
                                UserMessage parts];
                    evs = [LogInfo MSG_STEP1, GetBrowserStateSummary True, LogInfo MSG_STEP2,
                           LogInfo MSG_STEP3] @ warnings @ [LogInfo MSG_STEP4, Ainvoke messages]
                in case ainvoke (llm self) messages w1 of
                     (Inl e, w2) \<Rightarrow> (evs, w2, Inl e)
                   | (Inr response, w2) \<Rightarrow>
                       (case extract_content response of
                          Inl e \<Rightarrow> (evs, w2, Inl e)
                        | Inr content \<Rightarrow>
                            (evs @ [LogInfo MSG_DONE], w2,
                             Inr \<lparr>raw_response = content, summary = PLACEHOLDER,
                                  suggested_actions = PLACEHOLDER\<rparr>)))))"

text \<open>
  Lines 31-112: \<open>except Exception as e\<close> logs the message with the traceback and raises
  \<open>e\<close> again; an exception that is no instance of \<open>Exception\<close> passes the handler by.
  \<open>format_exc\<close> stands for \<open>traceback.format_exc()\<close>, the rendering of the exception
  being handled.
\<close>

definition summarize ::
  "(exn \<Rightarrow> pystr) \<Rightarrow> 'w SituationSummarizer \<Rightarrow> 'w \<Rightarrow>
     event list \<times> 'w \<times> (exn + SituationSummary)" where
  "summarize format_exc self w =
     (case summarize_try self w of
        (evs, w', Inr result) \<Rightarrow> (evs, w', Inr result)
      | (evs, w', Inl e) \<Rightarrow>
          if is_Exception e
          then (evs @ [LogError (MSG_FATAL @ format_exc e)], w', Inl e)
          else (evs, w', Inl e))"

text \<open>
  Lines 114-120: the summarizer is constructed with the query it was given (line 118),
  \<open>summarize\<close> is awaited on it (line 119), and the \<open>raw_response\<close> of its result is
  returned (line 120).
\<close>

definition summarize_page_state_from_session ::
  "(exn \<Rightarrow> pystr) \<Rightarrow> pystr \<Rightarrow> 'w BrowserSession \<Rightarrow> 'w BaseChatModel \<Rightarrow> 'w \<Rightarrow>
     event list \<times> 'w \<times> (exn + pystr)" where
  "summarize_page_state_from_session format_exc query session model w =
     (case summarize format_exc
             \<lparr>browser_context = session, llm = model, user_query = query\<rparr> w of
        (evs, w', Inl e) \<Rightarrow> (SituationSummarizerInit query # evs, w', Inl e)
      | (evs, w', Inr result) \<Rightarrow>
          (SituationSummarizerInit query # evs, w', Inr (raw_response result)))"

section \<open>main.py\<close>

text \<open>
  What \<open>main\<close> works with: the model client and the browser handle it builds at
  startup, the \<open>Agent\<close> class of the library (its constructor and the \<open>run\<close> method of
  the agent built for a task), and \<open>traceback.format_exc\<close>.
\<close>

record 'w externals =
  chat_model :: "'w BaseChatModel"
  browser :: "'w BrowserSession"
  Agent :: "pystr \<Rightarrow> 'w \<Rightarrow> (exn + unit) \<times> 'w"
  agent_run :: "pystr \<Rightarrow> 'w \<Rightarrow> (exn + unit) \<times> 'w"
  traceback_format_exc :: "exn \<Rightarrow> pystr"

text \<open>How one pass through the body of \<open>while True\<close> ends.\<close>

datatype control = Continue | Break | Raise exn

text \<open>
  Standard input is the list of the lines still to be read; \<open>input()\<close> on an exhausted
  input raises \<open>EOFError\<close>.
\<close>

definition EOFError :: exn where
  "EOFError = Exn True (ascii ''EOFError'') (ascii ''EOF when reading a line'')"


subsection \<open>String literals of main\<close>

text \<open>Lines 16-18: the rule \<open>'-' * 30\<close> and the startup banner.\<close>

definition RULE30 :: pystr where
  "RULE30 = concat (replicate 30 (ascii ''-''))"


text \<open>Lines 45-50: the menu.\<close>

definition RULE40 :: pystr where
  "RULE40 = concat (replicate 40 (ascii ''=''))"

definition MENU_TITLE :: pystr where
  "MENU_TITLE = ascii ''['' @ [12513, 12491, 12517, 12540] @ ascii '']''"

definition MENU_1 :: pystr where
  "MENU_1 = ascii ''1: '' @ [12479, 12473, 12463, 23455, 34892] @ ascii '' (Agent)''"

definition MENU_2 :: pystr where
  "MENU_2 = ascii ''2: '' @ [29366, 27841, 35201, 32004] @ ascii '' (Summarizer)''"

definition MENU_Q :: pystr where
  "MENU_Q = ascii ''q: '' @ [32066, 20102]"

definition MENU :: "event list" where
  "MENU = [Print ([10] @ RULE40), Print MENU_TITLE, Print MENU_1, Print MENU_2, Print MENU_Q,
           Print RULE40]"

text \<open>Lines 52, 60 and 79: the three prompts of \<open>input\<close>.\<close>

definition PROMPT_CHOICE :: pystr where
  "PROMPT_CHOICE = [36984, 25246, 12375, 12390, 12367, 12384, 12373, 12356] @ ascii '' >> ''"

definition PROMPT_TASK :: pystr where
  "PROMPT_TASK = [23455, 34892, 12375, 12383, 12356, 12479, 12473, 12463, 12434, 20837, 21147,
     12375, 12390, 12367, 12384, 12373, 12356] @ ascii '' >> ''"

definition PROMPT_QUERY :: pystr where
  "PROMPT_QUERY = [30693, 12426, 12383, 12356, 12371, 12392, 65288, 31354, 12394, 12425, 12300,
     20170, 12398, 30011, 38754, 12399, 12393, 12358, 12394, 12387, 12390, 12356, 12427, 65311,
     12301, 65289] @ ascii ''>> ''"

text \<open>Line 55: "exiting".\<close>

definition MSG_BYE :: pystr where
  "MSG_BYE = [32066, 20102, 12375, 12414, 12377, 12290]"

text \<open>Lines 71 and 75: "running the agent: ", "an error occurred while the agent ran: ".\<close>

definition MSG_AGENT_RUN :: pystr where
  "MSG_AGENT_RUN = [10] @ ascii ''>>> Agent'' @ [12434, 23455, 34892, 12375, 12414, 12377] @
     ascii '': ''"

definition MSG_AGENT_ERROR :: pystr where
  "MSG_AGENT_ERROR = ascii ''Agent'' @ [23455, 34892, 20013, 12395, 12456, 12521, 12540, 12364,
     30330, 29983, 12375, 12414, 12375, 12383] @ ascii '': ''"

text \<open>Lines 83 and 92: "summarizing the situation...", the heading of the summary.\<close>

definition MSG_SUMMARIZING :: pystr where
  "MSG_SUMMARIZING = [10] @ ascii ''>>> '' @ [29366, 27841, 12434, 35201, 32004, 12375, 12414,
     12377] @ ascii ''...''"

definition MSG_SUMMARY_HEADING :: pystr where
  "MSG_SUMMARY_HEADING = [29694, 22312, 12398, 30011, 38754, 12398, 29366, 27841, 35201, 32004] @
     ascii '':''"

text \<open>
  Lines 96-97: "an error occurred while summarizing: " and the hint to run some task
  with option 1 first when no browser is open yet.
\<close>

definition MSG_SUMMARY_ERROR :: pystr where
  "MSG_SUMMARY_ERROR = [35201, 32004, 20013, 12395, 12456, 12521, 12540, 12364, 30330, 29983,
     12375, 12414, 12375, 12383] @ ascii '': ''"

definition MSG_RUN_TASK_FIRST :: pystr where
  "MSG_RUN_TASK_FIRST = [8251, 12414, 12384, 12502, 12521, 12454, 12470, 12364, 38283, 12356,
     12390, 12356, 12394, 12356, 22580, 21512, 12289, 20808, 12395, 12300] @ ascii ''1'' @
     [12301, 12391, 20309, 12425, 12363, 12398, 12479, 12473, 12463, 65288, 20363] @ ascii '': '' @
     [39] @ ascii ''Google'' @ [12434, 38283, 12356, 12390, 39, 65289, 12434, 23455, 34892, 12375,
     12390, 12367, 12384, 12373, 12356, 12290]"





subsection \<open>The menu loop\<close>

text \<open>
  Lines 60-75, the branch of choice \<open>1\<close>. The task text is what \<open>input\<close> returned, as it
  is. The constructor of \<open>Agent\<close> is called outside the inner \<open>try\<close>; \<open>agent.run()\<close> is
  inside it.
\<close>

definition option_run_task ::
  "'w externals \<Rightarrow> pystr list \<Rightarrow> 'w \<Rightarrow> event list \<times> 'w \<times> pystr list \<times> control" where
  "option_run_task ext inputs w =
     (case inputs of
        [] \<Rightarrow> ([Input PROMPT_TASK], w, [], Raise EOFError)
      | task_content # rest \<Rightarrow>
          if task_content = [] then ([Input PROMPT_TASK], w, rest, Continue)
          else
            (case Agent ext task_content w of
               (Inl e, w1) \<Rightarrow>
                 ([Input PROMPT_TASK, AgentInit task_content True], w1, rest, Raise e)
             | (Inr _, w1) \<Rightarrow>
                 (let evs = [Input PROMPT_TASK, AgentInit task_content True,
                             Print (MSG_AGENT_RUN @ task_content), AgentRun task_content]
                  in case agent_run ext task_content w1 of
                       (Inr _, w2) \<Rightarrow> (evs, w2, rest, Continue)
                     | (Inl e, w2) \<Rightarrow>
                         if is_Exception e
                         then (evs @ [Print (MSG_AGENT_ERROR @ exn_str e)], w2, rest, Continue)
                         else (evs, w2, rest, Raise e))))"

text \<open>Lines 79-81: the query handed to the summarizer, from the line the user typed.\<close>

definition entered_query :: "pystr \<Rightarrow> pystr" where
  "entered_query line =
     (let stripped = strip line
      in if stripped = [] then DEFAULT_QUERY else stripped)"

text \<open>Lines 79-97, the branch of choice \<open>2\<close>.\<close>

definition option_summarize ::
  "'w externals \<Rightarrow> pystr list \<Rightarrow> 'w \<Rightarrow> event list \<times> 'w \<times> pystr list \<times> control" where
  "option_summarize ext inputs w =
     (case inputs of
        [] \<Rightarrow> ([Input PROMPT_QUERY], w, [], Raise EOFError)
      | line # rest \<Rightarrow>
          (let evs = [Input PROMPT_QUERY, Print MSG_SUMMARIZING]
           in case summarize_page_state_from_session (traceback_format_exc ext)
                     (entered_query line) (browser ext) (chat_model ext) w of
                (sevs, w1, Inr text_summary) \<Rightarrow>
                  (evs @ sevs @ [Print ([10] @ RULE30), Print MSG_SUMMARY_HEADING, Print RULE30,
                                 Print text_summary], w1, rest, Continue)
              | (sevs, w1, Inl e) \<Rightarrow>
                  if is_Exception e
                  then (evs @ sevs @ [Print (MSG_SUMMARY_ERROR @ exn_str e),
                                      Print MSG_RUN_TASK_FIRST], w1, rest, Continue)
                  else (evs @ sevs, w1, rest, Raise e)))"

text \<open>Lines 45-97: one pass through the body of the loop.\<close>

definition loop_iteration ::
  "'w externals \<Rightarrow> pystr list \<Rightarrow> 'w \<Rightarrow> event list \<times> 'w \<times> pystr list \<times> control" where
  "loop_iteration ext inputs w =
     (case inputs of
        [] \<Rightarrow> (MENU @ [Input PROMPT_CHOICE], w, [], Raise EOFError)
      | line # rest \<Rightarrow>
          (let choice = strip line
           in if choice = ascii ''q''
              then (MENU @ [Input PROMPT_CHOICE, Print MSG_BYE], w, rest, Break)
              else if choice = ascii ''1''
              then (case option_run_task ext rest w of
                      (evs, r) \<Rightarrow> (MENU @ [Input PROMPT_CHOICE] @ evs, r))
              else if choice = ascii ''2''
              then (case option_summarize ext rest w of
                      (evs, r) \<Rightarrow> (MENU @ [Input PROMPT_CHOICE] @ evs, r))
              else (MENU @ [Input PROMPT_CHOICE], w, rest, Continue)))"

text \<open>
  Lines 44-97: the loop. It ends at \<open>break\<close> or at an exception that leaves the body.
  The comparison of the lengths is there for the termination proof alone: a pass that
  continues has always read a line (\<open>loop_iteration_reads\<close> below), so its \<open>else\<close> is
  never taken and \<open>main_loop_unfold\<close> states the loop without it.
\<close>

function main_loop ::
  "'w externals \<Rightarrow> pystr list \<Rightarrow> 'w \<Rightarrow> event list \<times> 'w \<times> (exn + unit)" where
  "main_loop ext inputs w =
     (case loop_iteration ext inputs w of
        (evs, w', inputs', ctl) \<Rightarrow>
          (case ctl of
             Break \<Rightarrow> (evs, w', Inr ())
           | Raise e \<Rightarrow> (evs, w', Inl e)
           | Continue \<Rightarrow>
               (if length inputs' < length inputs
                then (case main_loop ext inputs' w' of (evs', r) \<Rightarrow> (evs @ evs', r))
                else (evs, w', Inl EOFError))))"
  by pat_completeness auto
termination
  by (relation "measure (\<lambda>(ext, inputs, w). length inputs)") auto

declare main_loop.simps [simp del]

subsection \<open>Shutdown and the whole of main\<close>




section \<open>Reading a run\<close>

text \<open>The message lists handed to the model client, in order.\<close>

fun sent_messages :: "event list \<Rightarrow> message list list" where
  "sent_messages [] = []"
| "sent_messages (Ainvoke msgs # evs) = msgs # sent_messages evs"
| "sent_messages (_ # evs) = sent_messages evs"

text \<open>The termination operations invoked on the browser handle, in order.\<close>

definition terminations :: "event list \<Rightarrow> event list" where
  "terminations evs = filter (\<lambda>ev. ev = BrowserKill \<or> ev = BrowserStop) evs"

text \<open>The queries with which a summarizer was constructed, in order.\<close>

fun summarizer_queries :: "event list \<Rightarrow> pystr list" where
  "summarizer_queries [] = []"
| "summarizer_queries (SituationSummarizerInit q # evs) = q # summarizer_queries evs"
| "summarizer_queries (_ # evs) = summarizer_queries evs"

text \<open>
  The calls that a pass of the loop dispatches to: the agent constructed and run, the
  summarizer constructed, the page state fetched, the model client invoked, the browser
  handle terminated.
\<close>

fun dispatched :: "event list \<Rightarrow> event list" where
  "dispatched [] = []"
| "dispatched (AgentInit t f # evs) = AgentInit t f # dispatched evs"
| "dispatched (AgentRun t # evs) = AgentRun t # dispatched evs"
| "dispatched (GetBrowserStateSummary i # evs) = GetBrowserStateSummary i # dispatched evs"
| "dispatched (Ainvoke m # evs) = Ainvoke m # dispatched evs"
| "dispatched (SituationSummarizerInit q # evs) = SituationSummarizerInit q # dispatched evs"
| "dispatched (BrowserKill # evs) = BrowserKill # dispatched evs"
| "dispatched (BrowserStop # evs) = BrowserStop # dispatched evs"
| "dispatched (_ # evs) = dispatched evs"

text \<open>
  Lines 86-90 of the summarizer: the two messages built for a query, a rendered UI list
  and a screenshot field. Lines 33-95: what the summarizer has logged and called once it
  has handed them to the model client and waits for the reply.
\<close>

definition request :: "pystr \<Rightarrow> pystr \<Rightarrow> pystr option \<Rightarrow> message list" where
  "request q ui shot =
     [SystemMessage (system_prompt (query_instruction q)), UserMessage (fst (content_list ui shot))]"

definition before_reply :: "pystr \<Rightarrow> pystr \<Rightarrow> pystr option \<Rightarrow> event list" where
  "before_reply q ui shot =
     [LogInfo MSG_STEP1, GetBrowserStateSummary True, LogInfo MSG_STEP2, LogInfo MSG_STEP3] @
     snd (content_list ui shot) @ [LogInfo MSG_STEP4, Ainvoke (request q ui shot)]"

section \<open>Concrete collaborators for the worked examples\<close>

text \<open>
  A page with one button and a screenshot, a model client that answers \<open>ok\<close>, an agent
  that runs without error, and a browser handle that has both \<open>kill\<close> and \<open>stop\<close>.
  The world is the number of calls made to the collaborators so far.
\<close>

definition demo_state :: BrowserStateSummary where
  "demo_state = \<lparr>dom_state = Some (Dom (Some (Inr (ascii ''[1]<button>'')))),
                 screenshot = Some (ascii ''iVBORw0KGgo='')\<rparr>"

definition demo_response :: llm_response where
  "demo_response = \<lparr>completion = Some (PyStr (ascii ''ok'')),
                    response_str = Inr (ascii ''completion=ok'')\<rparr>"

definition demo_model :: "nat BaseChatModel" where
  "demo_model = \<lparr>ainvoke = (\<lambda>msgs w. (Inr demo_response, Suc w))\<rparr>"

definition demo_session :: "nat BrowserSession" where
  "demo_session = \<lparr>get_browser_state_summary = (\<lambda>inc w. (Inr demo_state, Suc w)),
                   kill = Some (\<lambda>w. (Inr (), Suc w)),
                   stop = Some (\<lambda>w. (Inr (), Suc w)),
                   has_browser_profile = True\<rparr>"

definition demo_format_exc :: "exn \<Rightarrow> pystr" where
  "demo_format_exc e = ascii ''Traceback (most recent call last): '' @ exn_class e"

definition demo_ext :: "nat externals" where
  "demo_ext = \<lparr>chat_model = demo_model, browser = demo_session,
               Agent = (\<lambda>task w. (Inr (), Suc w)),
               agent_run = (\<lambda>task w. (Inr (), Suc w)),
               traceback_format_exc = demo_format_exc\<rparr>"

text \<open>
  A page state without a DOM and with an empty screenshot string, a browser handle that
  returns it, and one that returns the same state with the screenshot absent.
\<close>

definition bare_state :: BrowserStateSummary where
  "bare_state = \<lparr>dom_state = None, screenshot = Some []\<rparr>"

definition bare_session :: "nat BrowserSession" where
  "bare_session = demo_session\<lparr>get_browser_state_summary := (\<lambda>inc w. (Inr bare_state, Suc w))\<rparr>"

definition blank_session :: "nat BrowserSession" where
  "blank_session = demo_session\<lparr>get_browser_state_summary :=
     (\<lambda>inc w. (Inr (bare_state\<lparr>screenshot := None\<rparr>), Suc w))\<rparr>"









section \<open>Properties of the summarizer\<close>

lemma sent_messages_append: "sent_messages (xs @ ys) = sent_messages xs @ sent_messages ys"
  by (induction xs rule: sent_messages.induct) simp_all

lemma content_list_cases:
  "content_list ui shot =
     (if shot = None \<or> shot = Some []
      then ([ContentPartTextParam (USER_TEXT_HEAD @ ui)], [LogWarning MSG_NO_SCREENSHOT])
      else ([ContentPartTextParam (USER_TEXT_HEAD @ ui),
             ContentPartImageParam
               \<lparr>url = DATA_URL_PREFIX @ the shot, media_type = MEDIA_TYPE_PNG\<rparr>], []))"
  by (cases shot) (simp_all add: content_list_def)

lemma sent_messages_warnings: "sent_messages (snd (content_list ui shot)) = []"
  by (simp add: content_list_cases)


lemma summarize_try_render_raises:
  assumes "get_browser_state_summary (browser_context self) True w = (Inr state, w1)"
    and "ui_elements_text state = Inl e"
  shows "summarize_try self w =
    ([LogInfo MSG_STEP1, GetBrowserStateSummary True, LogInfo MSG_STEP2], w1, Inl e)"
  using assms by (simp add: summarize_try_def)

lemma summarize_sends_nothing_before_the_request:
  assumes "get_browser_state_summary (browser_context self) True w = (Inl e, w1) \<or>
           (\<exists>state. get_browser_state_summary (browser_context self) True w = (Inr state, w1) \<and>
                    ui_elements_text state = Inl e)"
  shows "sent_messages (fst (summarize_try self w)) = []"
  using assms by (auto simp add: summarize_try_def)

lemma summarize_try_invoke:
  assumes "get_browser_state_summary (browser_context self) True w = (Inr state, w1)"
    and "ui_elements_text state = Inr ui"
  shows "summarize_try self w =
    (case ainvoke (llm self) (request (user_query self) ui (screenshot state)) w1 of
       (Inl e, w2) \<Rightarrow> (before_reply (user_query self) ui (screenshot state), w2, Inl e)
     | (Inr response, w2) \<Rightarrow>
         (case extract_content response of
            Inl e \<Rightarrow> (before_reply (user_query self) ui (screenshot state), w2, Inl e)
          | Inr content \<Rightarrow>
              (before_reply (user_query self) ui (screenshot state) @ [LogInfo MSG_DONE], w2,
               Inr \<lparr>raw_response = content, summary = PLACEHOLDER,
                    suggested_actions = PLACEHOLDER\<rparr>)))"
  using assms
  by (cases "content_list ui (screenshot state)")
     (auto simp add: summarize_try_def request_def before_reply_def split: prod.splits sum.splits)

lemma sent_before_reply: "sent_messages (before_reply q ui shot) = [request q ui shot]"
  by (simp add: before_reply_def sent_messages_append sent_messages_warnings)

lemma summarize_try_sent:
  assumes "get_browser_state_summary (browser_context self) True w = (Inr state, w1)"
    and "ui_elements_text state = Inr ui"
  shows "sent_messages (fst (summarize_try self w)) =
           [request (user_query self) ui (screenshot state)]"
  by (simp add: summarize_try_invoke[OF assms] sent_before_reply sent_messages_append
           split: prod.splits sum.splits)

lemma summarize_sent:
  "sent_messages (fst (summarize format_exc self w)) = sent_messages (fst (summarize_try self w))"
  by (simp add: summarize_def sent_messages_append split: prod.splits sum.splits)

lemma summarize_warning:
  "LogWarning m \<in> set (fst (summarize format_exc self w)) \<longleftrightarrow>
   LogWarning m \<in> set (fst (summarize_try self w))"
  by (simp add: summarize_def split: prod.splits sum.splits)

lemma summarize_try_warning:
  assumes "get_browser_state_summary (browser_context self) True w = (Inr state, w1)"
    and "ui_elements_text state = Inr ui"
  shows "LogWarning MSG_NO_SCREENSHOT \<in> set (fst (summarize_try self w)) \<longleftrightarrow>
           screenshot state = None \<or> screenshot state = Some []"
  by (simp add: summarize_try_invoke[OF assms] before_reply_def content_list_cases
           split: prod.splits sum.splits)


text \<open>The worked example: the page with one button and a screenshot.\<close>

lemma demo_fetch: "get_browser_state_summary demo_session True w = (Inr demo_state, Suc w)"
  by (simp add: demo_session_def)

lemma demo_render: "ui_elements_text demo_state = Inr (ascii ''[1]<button>'')"
  by (simp add: ui_elements_text_def demo_state_def)

lemma demo_screenshot: "screenshot demo_state = Some (ascii ''iVBORw0KGgo='')"
  by (simp add: demo_state_def)


text \<open>
  Claim C3. Whatever the model client replied, a summary returned by \<open>summarize\<close> has its
  \<open>summary\<close> and \<open>suggested_actions\<close> fields equal to the one placeholder string; the
  summary is determined by its \<open>raw_response\<close> field alone.
\<close>

theorem summary_fields_are_placeholders:
  assumes "summarize format_exc self w = (evs, w', Inr result)"
  shows "summary result = PLACEHOLDER \<and> suggested_actions result = PLACEHOLDER \<and>
         result = \<lparr>raw_response = raw_response result, summary = PLACEHOLDER,
                   suggested_actions = PLACEHOLDER\<rparr>"
  using assms
  by (auto simp add: summarize_def summarize_try_def Let_def
           split: prod.splits sum.splits if_splits)

lemma demo_summarize:
  "summarize demo_format_exc \<lparr>browser_context = demo_session, llm = demo_model, user_query = []\<rparr> 0 =
     (before_reply [] (ascii ''[1]<button>'') (Some (ascii ''iVBORw0KGgo='')) @ [LogInfo MSG_DONE],
      Suc (Suc 0),
      Inr \<lparr>raw_response = ascii ''ok'', summary = PLACEHOLDER, suggested_actions = PLACEHOLDER\<rparr>)"
proof -
  let ?self = "\<lparr>browser_context = demo_session, llm = demo_model, user_query = []\<rparr>"
  have fetch: "get_browser_state_summary (browser_context ?self) True 0 = (Inr demo_state, Suc 0)"
    by (simp add: demo_fetch)
  have "summarize_try ?self 0 =
          (before_reply [] (ascii ''[1]<button>'') (Some (ascii ''iVBORw0KGgo='')) @
             [LogInfo MSG_DONE], Suc (Suc 0),
           Inr \<lparr>raw_response = ascii ''ok'', summary = PLACEHOLDER,
                suggested_actions = PLACEHOLDER\<rparr>)"
    unfolding summarize_try_invoke[OF fetch demo_render]
    by (simp add: demo_screenshot demo_model_def demo_response_def extract_content_def)
  then show ?thesis
    by (simp add: summarize_def)
qed

theorem summary_fields_are_placeholders_witness:
  "summary \<lparr>raw_response = ascii ''ok'', summary = PLACEHOLDER, suggested_actions = PLACEHOLDER\<rparr>
     = PLACEHOLDER \<and>
   suggested_actions
     \<lparr>raw_response = ascii ''ok'', summary = PLACEHOLDER, suggested_actions = PLACEHOLDER\<rparr>
     = PLACEHOLDER \<and>
   snd (snd (summarize demo_format_exc
     \<lparr>browser_context = demo_session, llm = demo_model, user_query = []\<rparr> 0)) =
     Inr \<lparr>raw_response = ascii ''ok'', summary = PLACEHOLDER, suggested_actions = PLACEHOLDER\<rparr>"
  using summary_fields_are_placeholders[OF demo_summarize] demo_summarize by simp




text \<open>
  Claim C5. For a page state whose \<open>dom_state\<close> is None or has no \<open>llm_representation\<close>
  method, the rendering step does not raise: it yields the fallback placeholder, and the
  request reaches the model client with that placeholder embedded in its text part.
\<close>

theorem ui_fallback_instead_of_raising:
  assumes "get_browser_state_summary (browser_context self) True w = (Inr state, w1)"
    and "dom_state state = None \<or> (\<exists>d. dom_state state = Some d \<and> llm_representation d = None)"
  shows "ui_elements_text state = Inr UI_FALLBACK \<and>
         (\<exists>sp more. sent_messages (fst (summarize format_exc self w)) =
            [[SystemMessage sp,
              UserMessage (ContentPartTextParam (USER_TEXT_HEAD @ UI_FALLBACK) # more)]])"
proof -
  have ui: "ui_elements_text state = Inr UI_FALLBACK"
    using assms(2) by (auto simp add: ui_elements_text_def)
  have "sent_messages (fst (summarize format_exc self w)) =
          [request (user_query self) UI_FALLBACK (screenshot state)]"
    by (simp add: summarize_sent summarize_try_sent[OF assms(1) ui])
  then show ?thesis
    using ui by (simp add: request_def content_list_cases)
qed

theorem ui_fallback_instead_of_raising_witness:
  "get_browser_state_summary
     (browser_context \<lparr>browser_context = bare_session, llm = demo_model, user_query = []\<rparr>)
     True 0 = (Inr bare_state, Suc 0) \<and>
   dom_state bare_state = None \<and>
   ui_elements_text bare_state = Inr UI_FALLBACK \<and>
   (\<exists>sp more. sent_messages (fst (summarize demo_format_exc
        \<lparr>browser_context = bare_session, llm = demo_model, user_query = []\<rparr> 0)) =
      [[SystemMessage sp, UserMessage (ContentPartTextParam (USER_TEXT_HEAD @ UI_FALLBACK) # more)]])"
proof -
  let ?self = "\<lparr>browser_context = bare_session, llm = demo_model, user_query = []\<rparr>"
  have fetch: "get_browser_state_summary (browser_context ?self) True 0 = (Inr bare_state, Suc 0)"
    by (simp add: bare_session_def demo_session_def)
  have dom: "dom_state bare_state = None"
    by (simp add: bare_state_def)
  then have "dom_state bare_state = None \<or>
             (\<exists>d. dom_state bare_state = Some d \<and> llm_representation d = None)"
    by simp
  from ui_fallback_instead_of_raising[OF fetch this, of demo_format_exc]
  show ?thesis using fetch dom by simp
qed

text \<open>
  Claim C9. A page state whose screenshot is the empty string gets the text part alone
  and the missing-screenshot warning, and the whole call behaves as it does on the same
  page state with the screenshot absent.
\<close>

theorem empty_screenshot_as_absent:
  assumes "get_browser_state_summary (browser_context self) True w = (Inr state, w1)"
    and "ui_elements_text state = Inr ui"
    and "screenshot state = Some []"
    and "get_browser_state_summary (browser_context self') True w =
           (Inr (state\<lparr>screenshot := None\<rparr>), w1)"
    and "llm self' = llm self" and "user_query self' = user_query self"
  shows "content_list ui (screenshot state) =
           ([ContentPartTextParam (USER_TEXT_HEAD @ ui)], [LogWarning MSG_NO_SCREENSHOT]) \<and>
         content_list ui (screenshot state) = content_list ui None \<and>
         sent_messages (fst (summarize format_exc self w)) =
           [[SystemMessage (system_prompt (query_instruction (user_query self))),
             UserMessage [ContentPartTextParam (USER_TEXT_HEAD @ ui)]]] \<and>
         LogWarning MSG_NO_SCREENSHOT \<in> set (fst (summarize format_exc self w)) \<and>
         summarize format_exc self' w = summarize format_exc self w"
proof -
  have ui': "ui_elements_text (state\<lparr>screenshot := None\<rparr>) = Inr ui"
    using assms(2) by (simp add: ui_elements_text_def)
  have req: "request (user_query self) ui None = request (user_query self) ui (Some [])"
    by (simp add: request_def content_list_cases)
  have bef: "before_reply (user_query self) ui None = before_reply (user_query self) ui (Some [])"
    by (simp add: before_reply_def req content_list_cases)
  have same: "summarize_try self' w = summarize_try self w"
    unfolding summarize_try_invoke[OF assms(1,2)] summarize_try_invoke[OF assms(4) ui']
    by (simp add: assms(3,5,6) req bef split: prod.splits sum.splits)
  have parts: "content_list ui (screenshot state) =
                 ([ContentPartTextParam (USER_TEXT_HEAD @ ui)], [LogWarning MSG_NO_SCREENSHOT])"
    by (simp add: assms(3) content_list_cases)
  have sent: "sent_messages (fst (summarize format_exc self w)) =
                [[SystemMessage (system_prompt (query_instruction (user_query self))),
                  UserMessage [ContentPartTextParam (USER_TEXT_HEAD @ ui)]]]"
    by (simp add: summarize_sent summarize_try_sent[OF assms(1,2)] request_def parts)
  have warn: "LogWarning MSG_NO_SCREENSHOT \<in> set (fst (summarize format_exc self w))"
    by (simp add: summarize_warning summarize_try_warning[OF assms(1,2)] assms(3))
  have whole: "summarize format_exc self' w = summarize format_exc self w"
    by (simp add: summarize_def same)
  show ?thesis
    using parts sent warn whole by (simp add: content_list_cases)
qed

theorem empty_screenshot_as_absent_witness:
  "screenshot bare_state = Some [] \<and>
   LogWarning MSG_NO_SCREENSHOT \<in> set (fst (summarize demo_format_exc
      \<lparr>browser_context = bare_session, llm = demo_model, user_query = []\<rparr> 0)) \<and>
   sent_messages (fst (summarize demo_format_exc
      \<lparr>browser_context = bare_session, llm = demo_model, user_query = []\<rparr> 0)) =
     [[SystemMessage (system_prompt (query_instruction [])),
       UserMessage [ContentPartTextParam (USER_TEXT_HEAD @ UI_FALLBACK)]]] \<and>
   summarize demo_format_exc
      \<lparr>browser_context = blank_session, llm = demo_model, user_query = []\<rparr> 0 =
   summarize demo_format_exc
      \<lparr>browser_context = bare_session, llm = demo_model, user_query = []\<rparr> 0"
proof -
  let ?self = "\<lparr>browser_context = bare_session, llm = demo_model, user_query = []\<rparr>"
  let ?self' = "\<lparr>browser_context = blank_session, llm = demo_model, user_query = []\<rparr>"
  have fetch: "get_browser_state_summary (browser_context ?self) True 0 = (Inr bare_state, Suc 0)"
    by (simp add: bare_session_def demo_session_def)
  have fetch': "get_browser_state_summary (browser_context ?self') True 0 =
                  (Inr (bare_state\<lparr>screenshot := None\<rparr>), Suc 0)"
    by (simp add: blank_session_def demo_session_def)
  have ui: "ui_elements_text bare_state = Inr UI_FALLBACK"
    by (simp add: ui_elements_text_def bare_state_def)
  have shot: "screenshot bare_state = Some []"
    by (simp add: bare_state_def)
  have l: "llm ?self' = llm ?self" and q: "user_query ?self' = user_query ?self"
    by simp_all
  from empty_screenshot_as_absent[OF fetch ui shot fetch' l q, of demo_format_exc]
  show ?thesis using shot by simp
qed

section \<open>Properties of the menu loop\<close>


lemma terminations_simps:
  "terminations [] = []"
  "terminations (ev # evs) =
     (if ev = BrowserKill \<or> ev = BrowserStop then ev # terminations evs else terminations evs)"
  by (simp_all add: terminations_def)

lemma dispatched_append: "dispatched (xs @ ys) = dispatched xs @ dispatched ys"
  by (induction xs rule: dispatched.induct) simp_all

lemma summarizer_queries_append:
  "summarizer_queries (xs @ ys) = summarizer_queries xs @ summarizer_queries ys"
  by (induction xs rule: summarizer_queries.induct) simp_all

lemma MENU_quiet:
  "terminations MENU = []" "dispatched MENU = []" "sent_messages MENU = []"
  "summarizer_queries MENU = []"
  by (simp_all add: MENU_def terminations_def)

lemma summarize_try_invoke_raises:
  assumes "get_browser_state_summary (browser_context self) True w = (Inr state, w1)"
    and "ui_elements_text state = Inr ui"
    and "ainvoke (llm self) (request (user_query self) ui (screenshot state)) w1 = (Inl e, w2)"
  shows "summarize_try self w = (before_reply (user_query self) ui (screenshot state), w2, Inl e)"
  using assms(3) by (simp add: summarize_try_invoke[OF assms(1,2)])

lemma summarize_try_extract_raises:
  assumes "get_browser_state_summary (browser_context self) True w = (Inr state, w1)"
    and "ui_elements_text state = Inr ui"
    and "ainvoke (llm self) (request (user_query self) ui (screenshot state)) w1 =
           (Inr response, w2)"
    and "extract_content response = Inl e"
  shows "summarize_try self w = (before_reply (user_query self) ui (screenshot state), w2, Inl e)"
  using assms(3,4) by (simp add: summarize_try_invoke[OF assms(1,2)])


lemma summarize_try_constructs_nothing: "summarizer_queries (fst (summarize_try self w)) = []"
  by (auto simp add: summarize_try_def content_list_cases Let_def summarizer_queries_append
           split: prod.splits sum.splits)


text \<open>A pass of the loop that continues has read at least one line.\<close>

lemma option_run_task_reads:
  "option_run_task ext inputs w = (evs, w', inputs', Continue) \<Longrightarrow> length inputs' < length inputs"
  by (auto simp add: option_run_task_def Let_def
           split: list.splits prod.splits sum.splits if_splits)

lemma option_summarize_reads:
  "option_summarize ext inputs w = (evs, w', inputs', Continue) \<Longrightarrow> length inputs' < length inputs"
  by (auto simp add: option_summarize_def Let_def
           split: list.splits prod.splits sum.splits if_splits)

lemma loop_iteration_reads:
  assumes "loop_iteration ext inputs w = (evs, w', inputs', Continue)"
  shows "length inputs' < length inputs"
proof (cases inputs)
  case Nil
  with assms show ?thesis by (simp add: loop_iteration_def)
next
  case (Cons line rest)
  show ?thesis
  proof (cases "strip line = ascii ''q''")
    case True
    with assms Cons show ?thesis by (simp add: loop_iteration_def)
  next
    case notq: False
    show ?thesis
    proof (cases "strip line = ascii ''1''")
      case True
      with assms Cons notq obtain evs1 where
        "option_run_task ext rest w = (evs1, w', inputs', Continue)"
        by (auto simp add: loop_iteration_def split: prod.splits)
      from option_run_task_reads[OF this] Cons show ?thesis by simp
    next
      case not1: False
      show ?thesis
      proof (cases "strip line = ascii ''2''")
        case True
        with assms Cons notq not1 obtain evs1 where
          "option_summarize ext rest w = (evs1, w', inputs', Continue)"
          by (auto simp add: loop_iteration_def split: prod.splits)
        from option_summarize_reads[OF this] Cons show ?thesis by simp
      next
        case False
        with assms Cons notq not1 show ?thesis by (auto simp add: loop_iteration_def)
      qed
    qed
  qed
qed

lemma main_loop_unfold:
  "main_loop ext inputs w =
     (case loop_iteration ext inputs w of
        (evs, w', inputs', ctl) \<Rightarrow>
          (case ctl of
             Break \<Rightarrow> (evs, w', Inr ())
           | Raise e \<Rightarrow> (evs, w', Inl e)
           | Continue \<Rightarrow> (case main_loop ext inputs' w' of (evs', r) \<Rightarrow> (evs @ evs', r))))"
  by (subst main_loop.simps)
     (auto split: prod.splits control.splits dest: loop_iteration_reads)

text \<open>The pass of the loop after choice \<open>2\<close>, and after choice \<open>1\<close>.\<close>

lemma choice_2_iteration:
  assumes "strip choice_line = ascii ''2''"
  shows "loop_iteration ext (choice_line # inputs) w =
           (case option_summarize ext inputs w of
              (evs, r) \<Rightarrow> (MENU @ [Input PROMPT_CHOICE] @ evs, r))"
proof -
  have choice: "ascii ''2'' \<noteq> ascii ''q''" "ascii ''2'' \<noteq> ascii ''1''"
    by (simp_all add: ascii_def)
  show ?thesis
    by (simp add: loop_iteration_def assms choice)
qed

lemma choice_1_iteration:
  assumes "strip choice_line = ascii ''1''"
  shows "loop_iteration ext (choice_line # inputs) w =
           (case option_run_task ext inputs w of
              (evs, r) \<Rightarrow> (MENU @ [Input PROMPT_CHOICE] @ evs, r))"
proof -
  have choice: "ascii ''1'' \<noteq> ascii ''q''"
    by (simp add: ascii_def)
  show ?thesis
    by (simp add: loop_iteration_def assms choice)
qed


text \<open>Stripping the inputs used in the worked examples.\<close>

lemma strip_ascii_2: "strip (ascii ''2'') = ascii ''2''"
  by (simp add: strip_def ascii_def isspace_def)

lemma strip_ascii_1: "strip (ascii ''1'') = ascii ''1''"
  by (simp add: strip_def ascii_def isspace_def)







text \<open>
  Claim C8, for the stripped input. When the line typed at the menu, stripped of
  surrounding whitespace, is none of \<open>1\<close>, \<open>2\<close> and \<open>q\<close>, the pass of the loop prints
  the menu, reads that line and nothing more, calls no collaborator, leaves the world as
  it was, and the loop goes on with the next pass.
\<close>

theorem unknown_choice_redisplays_menu:
  assumes "strip line \<noteq> ascii ''1''" and "strip line \<noteq> ascii ''2''"
    and "strip line \<noteq> ascii ''q''"
  shows "loop_iteration ext (line # rest) w = (MENU @ [Input PROMPT_CHOICE], w, rest, Continue) \<and>
         dispatched (fst (loop_iteration ext (line # rest) w)) = [] \<and>
         main_loop ext (line # rest) w =
           (case main_loop ext rest w of (evs, r) \<Rightarrow> (MENU @ [Input PROMPT_CHOICE] @ evs, r))"
proof -
  have it: "loop_iteration ext (line # rest) w = (MENU @ [Input PROMPT_CHOICE], w, rest, Continue)"
    using assms by (simp add: loop_iteration_def)
  have "main_loop ext (line # rest) w =
          (case main_loop ext rest w of (evs, r) \<Rightarrow> (MENU @ [Input PROMPT_CHOICE] @ evs, r))"
    by (subst main_loop_unfold) (simp add: it)
  then show ?thesis
    using it by (simp add: dispatched_append MENU_quiet)
qed

text \<open>A worked instance: the user typed \<open>x\<close>.\<close>

theorem unknown_choice_redisplays_menu_witness:
  "strip (ascii ''x'') \<noteq> ascii ''1'' \<and> strip (ascii ''x'') \<noteq> ascii ''2'' \<and>
   strip (ascii ''x'') \<noteq> ascii ''q'' \<and>
   loop_iteration demo_ext (ascii ''x'' # [ascii ''q'']) 0 =
     (MENU @ [Input PROMPT_CHOICE], 0, [ascii ''q''], Continue)"
proof -
  have x: "strip (ascii ''x'') \<noteq> ascii ''1''" "strip (ascii ''x'') \<noteq> ascii ''2''"
    "strip (ascii ''x'') \<noteq> ascii ''q''"
    by (simp_all add: strip_def ascii_def isspace_def)
  from unknown_choice_redisplays_menu[OF x, of demo_ext "[ascii ''q'']" 0]
  show ?thesis using x by blast
qed

text \<open>
  Claim C8 as stated, for every input string other than \<open>1\<close>, \<open>2\<close> and \<open>q\<close>, fails on
  the string made of a space and \<open>1\<close>: it is none of the three, and the pass constructs
  and runs an agent.
\<close>

theorem padded_choice_runs_task:
  "ascii '' 1'' \<noteq> ascii ''1'' \<and> ascii '' 1'' \<noteq> ascii ''2'' \<and> ascii '' 1'' \<noteq> ascii ''q'' \<and>
   loop_iteration demo_ext [ascii '' 1'', ascii ''open''] 0 =
     (MENU @ [Input PROMPT_CHOICE, Input PROMPT_TASK, AgentInit (ascii ''open'') True,
              Print (MSG_AGENT_RUN @ ascii ''open''), AgentRun (ascii ''open'')],
      Suc (Suc 0), [], Continue)"
proof -
  have pad: "strip (ascii '' 1'') = ascii ''1''"
    by (simp add: strip_def ascii_def isspace_def)
  have ne: "ascii '' 1'' \<noteq> ascii ''1''" "ascii '' 1'' \<noteq> ascii ''2''" "ascii '' 1'' \<noteq> ascii ''q''"
    "ascii ''1'' \<noteq> ascii ''q''" "ascii ''open'' \<noteq> []"
    by (simp_all add: ascii_def)
  have "loop_iteration demo_ext [ascii '' 1'', ascii ''open''] 0 =
     (MENU @ [Input PROMPT_CHOICE, Input PROMPT_TASK, AgentInit (ascii ''open'') True,
              Print (MSG_AGENT_RUN @ ascii ''open''), AgentRun (ascii ''open'')],
      Suc (Suc 0), [], Continue)"
    by (simp add: loop_iteration_def pad ne option_run_task_def demo_ext_def)
  then show ?thesis
    using ne by blast
qed

text \<open>
  Claim C10. After choice \<open>1\<close>, only the empty task line skips the agent: the pass then
  reads the line, leaves the world as it was and continues. For any other line \<open>task\<close>, a
  line of whitespace included, the pass is determined by what the \<open>Agent\<close> constructor
  and \<open>agent.run()\<close> do for \<open>task\<close> as it was typed: the constructor is called with
  \<open>task\<close> in the world \<open>w\<close> and, when it raises, the pass raises; when it returns, the
  agent is announced and run for \<open>task\<close> in the world the constructor left, the pass
  ends in the world the run left, and it continues unless the run raised an exception
  that is no instance of \<open>Exception\<close>.
\<close>

theorem task_text_used_verbatim:
  assumes "strip choice_line = ascii ''1''"
  shows "loop_iteration ext (choice_line # [] # rest) w =
           (MENU @ [Input PROMPT_CHOICE, Input PROMPT_TASK], w, rest, Continue) \<and>
         (task \<noteq> [] \<longrightarrow>
            loop_iteration ext (choice_line # task # rest) w =
              (case Agent ext task w of
                 (Inl e, w1) \<Rightarrow>
                   (MENU @ [Input PROMPT_CHOICE, Input PROMPT_TASK, AgentInit task True],
                    w1, rest, Raise e)
               | (Inr u, w1) \<Rightarrow>
                   (case agent_run ext task w1 of
                      (Inr v, w2) \<Rightarrow>
                        (MENU @ [Input PROMPT_CHOICE, Input PROMPT_TASK, AgentInit task True,
                                 Print (MSG_AGENT_RUN @ task), AgentRun task],
                         w2, rest, Continue)
                    | (Inl e, w2) \<Rightarrow>
                        if is_Exception e
                        then (MENU @ [Input PROMPT_CHOICE, Input PROMPT_TASK,
                                      AgentInit task True, Print (MSG_AGENT_RUN @ task),
                                      AgentRun task, Print (MSG_AGENT_ERROR @ exn_str e)],
                              w2, rest, Continue)
                        else (MENU @ [Input PROMPT_CHOICE, Input PROMPT_TASK,
                                      AgentInit task True, Print (MSG_AGENT_RUN @ task),
                                      AgentRun task],
                              w2, rest, Raise e))))"
proof -
  have empty: "loop_iteration ext (choice_line # [] # rest) w =
                 (MENU @ [Input PROMPT_CHOICE, Input PROMPT_TASK], w, rest, Continue)"
    unfolding choice_1_iteration[OF assms]
    by (simp add: option_run_task_def)
  have run: "loop_iteration ext (choice_line # task # rest) w =
              (case Agent ext task w of
                 (Inl e, w1) \<Rightarrow>
                   (MENU @ [Input PROMPT_CHOICE, Input PROMPT_TASK, AgentInit task True],
                    w1, rest, Raise e)
               | (Inr u, w1) \<Rightarrow>
                   (case agent_run ext task w1 of
                      (Inr v, w2) \<Rightarrow>
                        (MENU @ [Input PROMPT_CHOICE, Input PROMPT_TASK, AgentInit task True,
                                 Print (MSG_AGENT_RUN @ task), AgentRun task],
                         w2, rest, Continue)
                    | (Inl e, w2) \<Rightarrow>
                        if is_Exception e
                        then (MENU @ [Input PROMPT_CHOICE, Input PROMPT_TASK,
                                      AgentInit task True, Print (MSG_AGENT_RUN @ task),
                                      AgentRun task, Print (MSG_AGENT_ERROR @ exn_str e)],
                              w2, rest, Continue)
                        else (MENU @ [Input PROMPT_CHOICE, Input PROMPT_TASK,
                                      AgentInit task True, Print (MSG_AGENT_RUN @ task),
                                      AgentRun task],
                              w2, rest, Raise e)))"
    if "task \<noteq> []"
    unfolding choice_1_iteration[OF assms]
    using that
    by (simp add: option_run_task_def Let_def split: prod.splits sum.splits)
  show ?thesis
    using empty run by blast
qed

text \<open>
  A worked instance: the task line is two spaces. The world counts the calls made to the
  collaborators: the constructor and the run.
\<close>

theorem task_text_used_verbatim_witness:
  "strip (ascii ''1'') = ascii ''1'' \<and> ascii ''  '' \<noteq> [] \<and> strip (ascii ''  '') = [] \<and>
   Agent demo_ext (ascii ''  '') 0 = (Inr (), Suc 0) \<and>
   agent_run demo_ext (ascii ''  '') (Suc 0) = (Inr (), Suc (Suc 0)) \<and>
   loop_iteration demo_ext (ascii ''1'' # ascii ''  '' # []) 0 =
     (MENU @ [Input PROMPT_CHOICE, Input PROMPT_TASK, AgentInit (ascii ''  '') True,
              Print (MSG_AGENT_RUN @ ascii ''  ''), AgentRun (ascii ''  '')],
      Suc (Suc 0), [], Continue)"
proof -
  have ne: "ascii ''  '' \<noteq> []"
    by (simp add: ascii_def)
  have blank: "strip (ascii ''  '') = []"
    by (simp add: strip_def ascii_def isspace_def)
  have ag: "Agent demo_ext (ascii ''  '') 0 = (Inr (), Suc 0)"
    by (simp add: demo_ext_def)
  have rn: "agent_run demo_ext (ascii ''  '') (Suc 0) = (Inr (), Suc (Suc 0))"
    by (simp add: demo_ext_def)
  from task_text_used_verbatim[OF strip_ascii_1, of demo_ext "[]" 0 "ascii ''  ''"] ne
  have "loop_iteration demo_ext (ascii ''1'' # ascii ''  '' # []) 0 =
     (MENU @ [Input PROMPT_CHOICE, Input PROMPT_TASK, AgentInit (ascii ''  '') True,
              Print (MSG_AGENT_RUN @ ascii ''  ''), AgentRun (ascii ''  '')],
      Suc (Suc 0), [], Continue)"
    by (simp add: ag rn)
  then show ?thesis
    using strip_ascii_1 ne blank ag rn by blast
qed

lemma summarize_try_sent_system_prompt:
  "\<forall>msgs \<in> set (sent_messages (fst (summarize_try self w))).
     \<exists>parts. msgs = [SystemMessage (system_prompt (query_instruction (user_query self))),
                      UserMessage parts]"
  by (auto simp add: summarize_try_def content_list_cases Let_def sent_messages_append
           split: prod.splits sum.splits)

lemma query_instruction_default: "query_instruction DEFAULT_QUERY = []"
  by (simp add: query_instruction_def)

lemma summarize_constructs_nothing:
  "summarizer_queries (fst (summarize format_exc self w)) = []"
  using summarize_try_constructs_nothing[of self w]
  by (auto simp add: summarize_def summarizer_queries_append split: prod.splits sum.splits)

lemma summarize_page_state_from_session_events:
  "fst (summarize_page_state_from_session format_exc q session model w) =
   SituationSummarizerInit q #
   fst (summarize format_exc \<lparr>browser_context = session, llm = model, user_query = q\<rparr> w)"
  by (simp add: summarize_page_state_from_session_def split: prod.splits sum.splits)

lemma option_summarize_events:
  "\<exists>tail. fst (option_summarize ext (line # rest) w) =
     [Input PROMPT_QUERY, Print MSG_SUMMARIZING] @
     fst (summarize_page_state_from_session (traceback_format_exc ext) (entered_query line)
            (browser ext) (chat_model ext) w) @ tail \<and>
     sent_messages tail = [] \<and> terminations tail = [] \<and> summarizer_queries tail = []"
proof -
  obtain sevs w1 r where
    s: "summarize_page_state_from_session (traceback_format_exc ext) (entered_query line)
          (browser ext) (chat_model ext) w = (sevs, w1, r)"
    by (cases "summarize_page_state_from_session (traceback_format_exc ext) (entered_query line)
                 (browser ext) (chat_model ext) w") auto
  show ?thesis
  proof (cases r)
    case (Inl e)
    then show ?thesis
      by (cases "is_Exception e") (simp_all add: option_summarize_def s terminations_simps)
  next
    case (Inr t)
    then show ?thesis
      by (simp add: option_summarize_def s terminations_simps)
  qed
qed

text \<open>
  Claim C6. After choice \<open>2\<close>, a query line that is empty once stripped is replaced by
  the default question before the summarizer is called: the pass is the one that
  \<open>summarize_page_state_from_session\<close> gives for the default question, and the one
  summarizer constructed in the pass is constructed with exactly that question. The
  instruction built for the default question is empty, and so every system message sent
  in that pass is the system prompt with nothing added.
\<close>

theorem empty_query_uses_default:
  assumes "strip choice_line = ascii ''2''" and "strip query_line = []"
  shows "loop_iteration ext (choice_line # query_line # rest) w =
           (case summarize_page_state_from_session (traceback_format_exc ext) DEFAULT_QUERY
                   (browser ext) (chat_model ext) w of
              (sevs, w1, Inr text_summary) \<Rightarrow>
                (MENU @ [Input PROMPT_CHOICE, Input PROMPT_QUERY, Print MSG_SUMMARIZING] @ sevs @
                 [Print ([10] @ RULE30), Print MSG_SUMMARY_HEADING, Print RULE30,
                  Print text_summary], w1, rest, Continue)
            | (sevs, w1, Inl e) \<Rightarrow>
                if is_Exception e
                then (MENU @ [Input PROMPT_CHOICE, Input PROMPT_QUERY, Print MSG_SUMMARIZING] @
                      sevs @ [Print (MSG_SUMMARY_ERROR @ exn_str e), Print MSG_RUN_TASK_FIRST],
                      w1, rest, Continue)
                else (MENU @ [Input PROMPT_CHOICE, Input PROMPT_QUERY, Print MSG_SUMMARIZING] @
                      sevs, w1, rest, Raise e)) \<and>
         summarizer_queries (fst (loop_iteration ext (choice_line # query_line # rest) w)) =
           [DEFAULT_QUERY] \<and>
         DEFAULT_QUERY \<noteq> [] \<and>
         query_instruction DEFAULT_QUERY = [] \<and>
         (\<forall>msgs \<in> set (sent_messages (fst (loop_iteration ext (choice_line # query_line # rest) w))).
            \<exists>parts. msgs = [SystemMessage (SYSTEM_PROMPT_HEAD @ SYSTEM_PROMPT_TAIL),
                             UserMessage parts])"
proof -
  let ?s = "summarize_page_state_from_session (traceback_format_exc ext) DEFAULT_QUERY
              (browser ext) (chat_model ext) w"
  let ?self = "\<lparr>browser_context = browser ext, llm = chat_model ext, user_query = DEFAULT_QUERY\<rparr>"
  have q: "entered_query query_line = DEFAULT_QUERY"
    by (simp add: entered_query_def assms(2))
  have full: "loop_iteration ext (choice_line # query_line # rest) w =
           (case ?s of
              (sevs, w1, Inr text_summary) \<Rightarrow>
                (MENU @ [Input PROMPT_CHOICE, Input PROMPT_QUERY, Print MSG_SUMMARIZING] @ sevs @
                 [Print ([10] @ RULE30), Print MSG_SUMMARY_HEADING, Print RULE30,
                  Print text_summary], w1, rest, Continue)
            | (sevs, w1, Inl e) \<Rightarrow>
                if is_Exception e
                then (MENU @ [Input PROMPT_CHOICE, Input PROMPT_QUERY, Print MSG_SUMMARIZING] @
                      sevs @ [Print (MSG_SUMMARY_ERROR @ exn_str e), Print MSG_RUN_TASK_FIRST],
                      w1, rest, Continue)
                else (MENU @ [Input PROMPT_CHOICE, Input PROMPT_QUERY, Print MSG_SUMMARIZING] @
                      sevs, w1, rest, Raise e))"
    unfolding choice_2_iteration[OF assms(1)]
    by (simp add: option_summarize_def q split: prod.splits sum.splits)
  have it: "fst (loop_iteration ext (choice_line # query_line # rest) w) =
              MENU @ [Input PROMPT_CHOICE] @ fst (option_summarize ext (query_line # rest) w)"
    unfolding choice_2_iteration[OF assms(1)]
    by (simp split: prod.splits)
  from option_summarize_events[of ext query_line rest w] obtain tail where
    tail: "fst (option_summarize ext (query_line # rest) w) =
             [Input PROMPT_QUERY, Print MSG_SUMMARIZING] @ fst ?s @ tail"
    and quiet: "sent_messages tail = []" "summarizer_queries tail = []"
    unfolding q by blast
  have evs: "fst (loop_iteration ext (choice_line # query_line # rest) w) =
               MENU @ [Input PROMPT_CHOICE, Input PROMPT_QUERY, Print MSG_SUMMARIZING] @
               [SituationSummarizerInit DEFAULT_QUERY] @
               fst (summarize (traceback_format_exc ext) ?self w) @ tail"
    by (simp add: it tail summarize_page_state_from_session_events)
  have asked: "summarizer_queries (fst (loop_iteration ext (choice_line # query_line # rest) w)) =
                 [DEFAULT_QUERY]"
    unfolding evs
    by (simp add: summarizer_queries_append MENU_quiet quiet summarize_constructs_nothing)
  have sent: "sent_messages (fst (loop_iteration ext (choice_line # query_line # rest) w)) =
                sent_messages (fst (summarize_try ?self w))"
    unfolding evs
    by (simp add: sent_messages_append MENU_quiet quiet summarize_sent)
  have ne: "DEFAULT_QUERY \<noteq> []"
    by (simp add: DEFAULT_QUERY_def)
  have prompt: "system_prompt (query_instruction DEFAULT_QUERY) =
                  SYSTEM_PROMPT_HEAD @ SYSTEM_PROMPT_TAIL"
    by (simp add: system_prompt_def query_instruction_default)
  have shape: "\<forall>msgs \<in> set (sent_messages
                   (fst (loop_iteration ext (choice_line # query_line # rest) w))).
                 \<exists>parts. msgs = [SystemMessage (SYSTEM_PROMPT_HEAD @ SYSTEM_PROMPT_TAIL),
                                  UserMessage parts]"
    unfolding sent
    using summarize_try_sent_system_prompt[of ?self w]
    by (simp add: prompt)
  show ?thesis
    using full asked ne query_instruction_default shape by blast
qed

lemma demo_summarize_try:
  "summarize_try \<lparr>browser_context = demo_session, llm = demo_model, user_query = q\<rparr> w =
     (before_reply q (ascii ''[1]<button>'') (Some (ascii ''iVBORw0KGgo='')) @ [LogInfo MSG_DONE],
      Suc (Suc w),
      Inr \<lparr>raw_response = ascii ''ok'', summary = PLACEHOLDER, suggested_actions = PLACEHOLDER\<rparr>)"
proof -
  let ?self = "\<lparr>browser_context = demo_session, llm = demo_model, user_query = q\<rparr>"
  have fetch: "get_browser_state_summary (browser_context ?self) True w = (Inr demo_state, Suc w)"
    by (simp add: demo_fetch)
  show ?thesis
    unfolding summarize_try_invoke[OF fetch demo_render]
    by (simp add: demo_screenshot demo_model_def demo_response_def extract_content_def)
qed

text \<open>A worked instance: the query line is one space.\<close>

theorem empty_query_uses_default_witness:
  "strip (ascii ''2'') = ascii ''2'' \<and> strip (ascii '' '') = [] \<and>
   summarizer_queries (fst (loop_iteration demo_ext (ascii ''2'' # ascii '' '' # []) 0)) =
     [DEFAULT_QUERY] \<and>
   DEFAULT_QUERY \<noteq> [] \<and>
   loop_iteration demo_ext (ascii ''2'' # ascii '' '' # []) 0 =
     (MENU @ [Input PROMPT_CHOICE, Input PROMPT_QUERY, Print MSG_SUMMARIZING,
              SituationSummarizerInit DEFAULT_QUERY] @
      before_reply DEFAULT_QUERY (ascii ''[1]<button>'') (Some (ascii ''iVBORw0KGgo='')) @
      [LogInfo MSG_DONE, Print ([10] @ RULE30), Print MSG_SUMMARY_HEADING, Print RULE30,
       Print (ascii ''ok'')], Suc (Suc 0), [], Continue) \<and>
   sent_messages (fst (loop_iteration demo_ext (ascii ''2'' # ascii '' '' # []) 0)) =
     [[SystemMessage (SYSTEM_PROMPT_HEAD @ SYSTEM_PROMPT_TAIL),
       UserMessage [ContentPartTextParam (USER_TEXT_HEAD @ ascii ''[1]<button>''),
                    ContentPartImageParam
                      \<lparr>url = DATA_URL_PREFIX @ ascii ''iVBORw0KGgo='',
                       media_type = MEDIA_TYPE_PNG\<rparr>]]]"
proof -
  have blank: "strip (ascii '' '') = []"
    by (simp add: strip_def ascii_def isspace_def)
  have shot: "ascii ''iVBORw0KGgo='' \<noteq> []"
    by (simp add: ascii_def)
  note c6 = empty_query_uses_default[OF strip_ascii_2 blank, of demo_ext "[]" 0]
  from c6 have asked:
    "summarizer_queries (fst (loop_iteration demo_ext (ascii ''2'' # ascii '' '' # []) 0)) =
       [DEFAULT_QUERY]"
    and ne: "DEFAULT_QUERY \<noteq> []"
    and qi: "query_instruction DEFAULT_QUERY = []"
    by blast+
  have s: "summarize_page_state_from_session (traceback_format_exc demo_ext) DEFAULT_QUERY
             (browser demo_ext) (chat_model demo_ext) 0 =
           (SituationSummarizerInit DEFAULT_QUERY #
            before_reply DEFAULT_QUERY (ascii ''[1]<button>'') (Some (ascii ''iVBORw0KGgo='')) @
            [LogInfo MSG_DONE], Suc (Suc 0), Inr (ascii ''ok''))"
    by (simp add: summarize_page_state_from_session_def summarize_def demo_ext_def
          demo_summarize_try)
  from c6 have full: "loop_iteration demo_ext (ascii ''2'' # ascii '' '' # []) 0 =
     (MENU @ [Input PROMPT_CHOICE, Input PROMPT_QUERY, Print MSG_SUMMARIZING,
              SituationSummarizerInit DEFAULT_QUERY] @
      before_reply DEFAULT_QUERY (ascii ''[1]<button>'') (Some (ascii ''iVBORw0KGgo='')) @
      [LogInfo MSG_DONE, Print ([10] @ RULE30), Print MSG_SUMMARY_HEADING, Print RULE30,
       Print (ascii ''ok'')], Suc (Suc 0), [], Continue)"
    by (simp add: s)
  have "sent_messages (fst (loop_iteration demo_ext (ascii ''2'' # ascii '' '' # []) 0)) =
     [request DEFAULT_QUERY (ascii ''[1]<button>'') (Some (ascii ''iVBORw0KGgo=''))]"
    by (simp add: full sent_messages_append MENU_quiet sent_before_reply)
  then have sent:
    "sent_messages (fst (loop_iteration demo_ext (ascii ''2'' # ascii '' '' # []) 0)) =
     [[SystemMessage (SYSTEM_PROMPT_HEAD @ SYSTEM_PROMPT_TAIL),
       UserMessage [ContentPartTextParam (USER_TEXT_HEAD @ ascii ''[1]<button>''),
                    ContentPartImageParam
                      \<lparr>url = DATA_URL_PREFIX @ ascii ''iVBORw0KGgo='',
                       media_type = MEDIA_TYPE_PNG\<rparr>]]]"
    by (simp add: request_def qi system_prompt_def content_list_cases shot)
  show ?thesis
    using strip_ascii_2 blank asked ne full sent by blast
qed












end
